theory Spec2Isabelle
  imports Complex_Main "HOL-Library.Word"
begin

unbundle bit_operations_syntax

section \<open>Data model\<close>

text \<open>
  A Node \<open>Buffer\<close> is a list of bytes. Strings are lists of 8-bit code units, which
  covers every name of the key table and every message of the program.
\<close>

type_synonym byte = "8 word"
type_synonym buffer = "byte list"

text \<open>The pixel-format descriptor of the RFB session (\<open>client.pixelFormat\<close>).\<close>

record PixelFormat =
  bitsPerPixel :: nat
  depth :: nat
  trueColorFlag :: bool
  bigEndianFlag :: bool
  redShift :: nat
  greenShift :: nat
  blueShift :: nat
  redMax :: nat
  greenMax :: nat
  blueMax :: nat

text \<open>
  The part of the library's \<open>VncClient\<close> object that the program reads. A field that
  is \<open>undefined\<close> or \<open>null\<close> in JavaScript is \<open>None\<close>.
\<close>

record VncClient =
  clientWidth :: "nat option"
  clientHeight :: "nat option"
  fb :: "buffer option"
  pixelFormat :: PixelFormat

text \<open>
  The format that the program calls standard RGBA: shifts 0, 8 and 16, every maximum 255.
\<close>

definition standardRGBA :: PixelFormat where
  "standardRGBA =
     \<lparr>bitsPerPixel = 32, depth = 24, trueColorFlag = True, bigEndianFlag = False,
      redShift = 0, greenShift = 8, blueShift = 16, redMax = 255, greenMax = 255, blueMax = 255\<rparr>"

text \<open>\<open>v || 0\<close> on a number that may be undefined: undefined and 0 both give 0.\<close>

fun orZero :: "nat option \<Rightarrow> nat" where
  "orZero None = 0"
| "orZero (Some n) = n"

subsection \<open>Numbers in template strings\<close>

text \<open>
  \<open>`${n}`\<close> prints an integral number of magnitude below \<open>10^21\<close> in decimal, with a
  leading minus sign when it is negative; \<open>showInt\<close> is that printing.
\<close>

definition digitChar :: "nat \<Rightarrow> char" where
  "digitChar d = ''0123456789'' ! d"

fun showNat :: "nat \<Rightarrow> string" where
  "showNat n = (if n < 10 then [digitChar n] else showNat (n div 10) @ [digitChar (n mod 10)])"

declare showNat.simps [simp del]

definition showInt :: "int \<Rightarrow> string" where
  "showInt i = (if i < 0 then CHR ''-'' # showNat (nat (- i)) else showNat (nat i))"

section \<open>Coordinate validation (src/vnc/client.ts)\<close>

text \<open>
  Coordinates are integers of either sign; the screen dimensions are the sizes the
  session reports, 0 while they are unknown.
\<close>

record CoordinateValidation =
  valid :: bool
  error :: "string option"

definition boundsMessage :: "int \<Rightarrow> int \<Rightarrow> int \<Rightarrow> int \<Rightarrow> string" where
  "boundsMessage x y screenWidth screenHeight =
     ''Coordinates ('' @ showInt x @ '', '' @ showInt y @
     '') are outside screen bounds (0, 0) to ('' @ showInt (screenWidth - 1) @ '', '' @
     showInt (screenHeight - 1) @ '')''"

definition validateCoordinates :: "VncClient \<Rightarrow> int \<Rightarrow> int \<Rightarrow> CoordinateValidation" where
  "validateCoordinates client x y =
     (let screenWidth = int (orZero (clientWidth client));
          screenHeight = int (orZero (clientHeight client))
      in if screenWidth = 0 \<or> screenHeight = 0 then \<lparr>valid = True, error = None\<rparr>
         else if x < 0 \<or> x \<ge> screenWidth \<or> y < 0 \<or> y \<ge> screenHeight
           then \<lparr>valid = False, error = Some (boundsMessage x y screenWidth screenHeight)\<rparr>
         else \<lparr>valid = True, error = None\<rparr>)"

section \<open>JavaScript values that reach the RFB library\<close>

text \<open>
  The key and button tables are object literals, and \<open>table[name]\<close> is a property
  lookup: it finds the literal's own entries and, failing that, the members every object
  inherits from \<open>Object.prototype\<close>. TypeScript types the result as a number; at run
  time it is a number, \<open>NaN\<close> (the character code of an empty string), or an inherited
  member, which is a function or an object and never a number.
\<close>

datatype jsvalue = JNum nat | JNaN | JInherited string

definition objectPrototypeMembers :: "string list" where
  "objectPrototypeMembers =
    [''constructor'', ''hasOwnProperty'', ''isPrototypeOf'', ''propertyIsEnumerable'',
     ''toLocaleString'', ''toString'', ''valueOf'', ''__proto__'',
     ''__defineGetter__'', ''__defineSetter__'', ''__lookupGetter__'', ''__lookupSetter__'']"

text \<open>\<open>table[name]\<close>: \<open>None\<close> is \<open>undefined\<close>.\<close>

definition propertyLookup :: "(string \<times> nat) list \<Rightarrow> string \<Rightarrow> jsvalue option" where
  "propertyLookup table name =
     (case map_of table name of
        Some v \<Rightarrow> Some (JNum v)
      | None \<Rightarrow> if name \<in> set objectPrototypeMembers then Some (JInherited name) else None)"

text \<open>\<open>a || b\<close>: \<open>undefined\<close>, 0 and \<open>NaN\<close> are falsy, everything else is truthy.\<close>

fun orElse :: "jsvalue option \<Rightarrow> jsvalue \<Rightarrow> jsvalue" where
  "orElse None b = b"
| "orElse (Some (JNum n)) b = (if n = 0 then b else JNum n)"
| "orElse (Some JNaN) b = b"
| "orElse (Some (JInherited m)) b = JInherited m"

text \<open>\<open>s.charCodeAt(0)\<close>: \<open>NaN\<close> on the empty string.\<close>

fun charCodeAt0 :: "string \<Rightarrow> jsvalue" where
  "charCodeAt0 [] = JNaN"
| "charCodeAt0 (c # cs) = JNum (of_char c)"

section \<open>Key names (src/vnc/keyboard.ts)\<close>

text \<open>\<open>s.split('+')\<close>: always at least one part.\<close>

fun jsSplit :: "char \<Rightarrow> string \<Rightarrow> string list" where
  "jsSplit sep [] = [[]]"
| "jsSplit sep (c # cs) =
     (if c = sep then [] # jsSplit sep cs
      else (case jsSplit sep cs of [] \<Rightarrow> [[c]] | p # ps \<Rightarrow> (c # p) # ps))"

text \<open>\<open>s.trim()\<close> removes white space and line terminators at both ends.\<close>

definition isWhiteSpace :: "char \<Rightarrow> bool" where
  "isWhiteSpace c \<longleftrightarrow> of_char c \<in> {9, 10, 11, 12, 13, 32, 160 :: nat}"

definition trim :: "string \<Rightarrow> string" where
  "trim s = rev (dropWhile isWhiteSpace (rev (dropWhile isWhiteSpace s)))"

record KeyInput =
  modifiers :: "string list"
  key :: string

definition parseKeyInput :: "string \<Rightarrow> KeyInput" where
  "parseKeyInput keyInput =
     (let parts = map trim (jsSplit CHR ''+'' keyInput)
      in if length parts = 1 then \<lparr>modifiers = [], key = parts ! 0\<rparr>
         else \<lparr>modifiers = butlast parts, key = last parts\<rparr>)"

definition keyMap :: "(string \<times> nat) list" where
  "keyMap = [
    (''a'', 0x0061), (''b'', 0x0062), (''c'', 0x0063), (''d'', 0x0064),
    (''e'', 0x0065), (''f'', 0x0066), (''g'', 0x0067), (''h'', 0x0068),
    (''i'', 0x0069), (''j'', 0x006a), (''k'', 0x006b), (''l'', 0x006c),
    (''m'', 0x006d), (''n'', 0x006e), (''o'', 0x006f), (''p'', 0x0070),
    (''q'', 0x0071), (''r'', 0x0072), (''s'', 0x0073), (''t'', 0x0074),
    (''u'', 0x0075), (''v'', 0x0076), (''w'', 0x0077), (''x'', 0x0078),
    (''y'', 0x0079), (''z'', 0x007a), (''A'', 0x0041), (''B'', 0x0042),
    (''C'', 0x0043), (''D'', 0x0044), (''E'', 0x0045), (''F'', 0x0046),
    (''G'', 0x0047), (''H'', 0x0048), (''I'', 0x0049), (''J'', 0x004a),
    (''K'', 0x004b), (''L'', 0x004c), (''M'', 0x004d), (''N'', 0x004e),
    (''O'', 0x004f), (''P'', 0x0050), (''Q'', 0x0051), (''R'', 0x0052),
    (''S'', 0x0053), (''T'', 0x0054), (''U'', 0x0055), (''V'', 0x0056),
    (''W'', 0x0057), (''X'', 0x0058), (''Y'', 0x0059), (''Z'', 0x005a),
    (''0'', 0x0030), (''1'', 0x0031), (''2'', 0x0032), (''3'', 0x0033),
    (''4'', 0x0034), (''5'', 0x0035), (''6'', 0x0036), (''7'', 0x0037),
    (''8'', 0x0038), (''9'', 0x0039), (''Return'', 0xff0d), (''return'', 0xff0d),
    (''Enter'', 0xff0d), (''enter'', 0xff0d), (''Tab'', 0xff09), (''tab'', 0xff09),
    (''BackSpace'', 0xff08), (''Backspace'', 0xff08), (''backspace'', 0xff08), (''Delete'', 0xffff),
    (''delete'', 0xffff), (''Escape'', 0xff1b), (''escape'', 0xff1b), (''Esc'', 0xff1b),
    (''Space'', 0x0020), (''space'', 0x0020), ('' '', 0x0020), (''Home'', 0xff50),
    (''home'', 0xff50), (''End'', 0xff57), (''end'', 0xff57), (''Page_Up'', 0xff55),
    (''PageUp'', 0xff55), (''pageup'', 0xff55), (''Page Up'', 0xff55), (''Page_Down'', 0xff56),
    (''PageDown'', 0xff56), (''pagedown'', 0xff56), (''Page Down'', 0xff56), (''Insert'', 0xff63),
    (''insert'', 0xff63), (''Up'', 0xff52), (''up'', 0xff52), (''Down'', 0xff54),
    (''down'', 0xff54), (''Left'', 0xff51), (''left'', 0xff51), (''Right'', 0xff53),
    (''right'', 0xff53), (''F1'', 0xffbe), (''f1'', 0xffbe), (''F2'', 0xffbf),
    (''f2'', 0xffbf), (''F3'', 0xffc0), (''f3'', 0xffc0), (''F4'', 0xffc1),
    (''f4'', 0xffc1), (''F5'', 0xffc2), (''f5'', 0xffc2), (''F6'', 0xffc3),
    (''f6'', 0xffc3), (''F7'', 0xffc4), (''f7'', 0xffc4), (''F8'', 0xffc5),
    (''f8'', 0xffc5), (''F9'', 0xffc6), (''f9'', 0xffc6), (''F10'', 0xffc7),
    (''f10'', 0xffc7), (''F11'', 0xffc8), (''f11'', 0xffc8), (''F12'', 0xffc9),
    (''f12'', 0xffc9), (''Ctrl'', 0xffe3), (''ctrl'', 0xffe3), (''Control'', 0xffe3),
    (''control'', 0xffe3), (''Shift'', 0xffe1), (''shift'', 0xffe1), (''Alt'', 0xffe9),
    (''alt'', 0xffe9), (''Super'', 0xffeb), (''super'', 0xffeb), (''Meta'', 0xffe7),
    (''meta'', 0xffe7), (''Cmd'', 0xffe7), (''cmd'', 0xffe7), (''Win'', 0xffeb),
    (''win'', 0xffeb), (''-'', 0x002d), (''='', 0x003d), (''['', 0x005b),
    ('']'', 0x005d), ([CHR 0x5C], 0x005c), ('';'', 0x003b), ([CHR 0x27], 0x0027),
    ('','', 0x002c), (''.'', 0x002e), (''/'', 0x002f), ([CHR 0x60], 0x0060),
    (''!'', 0x0021), (''@'', 0x0040), (''#'', 0x0023), (''$'', 0x0024),
    (''%'', 0x0025), (''^'', 0x005e), (''&'', 0x0026), (''*'', 0x002a),
    (''('', 0x0028), ('')'', 0x0029), (''_'', 0x005f), (''+'', 0x002b),
    (''{'', 0x007b), (''}'', 0x007d), (''|'', 0x007c), ('':'', 0x003a),
    ([CHR 0x22], 0x0022), (''<'', 0x003c), (''>'', 0x003e), (''?'', 0x003f),
    (''~'', 0x007e)]"

definition getKeysym :: "string \<Rightarrow> jsvalue" where
  "getKeysym k = orElse (propertyLookup keyMap k) (charCodeAt0 k)"

text \<open>
  The grammar of a key combination, \<open>Mod+...+Mod+Key\<close>: the names joined by \<open>+\<close>.
\<close>

fun plusJoin :: "string list \<Rightarrow> string" where
  "plusJoin [] = []"
| "plusJoin [t] = t"
| "plusJoin (t # u # ts) = t @ CHR ''+'' # plusJoin (u # ts)"

section \<open>Input tools (src/tools/input.ts)\<close>

text \<open>
  What a tool does to the session, in order: the calls it makes on the client, the pauses
  between them (\<open>await new Promise(resolve => setTimeout(resolve, ms))\<close>) and the
  timers and listeners it sets and removes. A call of \<open>requestFrameUpdate\<close> is kept with
  its arguments in the order they are written.
\<close>

datatype argument = ABool bool | ANum nat

datatype client_event =
    SendPointerEvent int int jsvalue
  | SendKeyEvent jsvalue bool
  | Sleep nat
  | RequestFrameUpdate "argument list"
  | OnceFrameUpdated
  | SetTimeout nat
  | ClearTimeout
  | RemoveListener
  | Disconnect

text \<open>
  An exception is \<open>new Error(message)\<close>; the constructors name the throw sites of the
  program. \<open>LibraryError\<close> is an exception thrown by a call into the RFB library.
\<close>

datatype quotient = Finite rat | Infinite | NotANumber

datatype vnc_error =
    CoordinateOutOfBounds string
  | DelayTooLong
  | InvalidScreenDimensions nat nat
  | FrameUpdateTimeout
  | NoFramebufferAvailable
  | UnsupportedPixelFormat quotient
  | FramebufferSizeMismatch nat nat
  | InvalidBytesPerPixel quotient
  | BufferRangeError
  | ConnectionError string
  | ConnectionTimeout
  | LibraryError string

text \<open>The tool result: a text and, for a screenshot, the image data with its MIME type.\<close>

record tool_result =
  text_of :: string
  image_of :: "(string \<times> string) option"

record click_args =
  click_x :: int
  click_y :: int
  button :: "string option"
  double :: "bool option"

definition buttonMap :: "(string \<times> nat) list" where
  "buttonMap = [(''left'', 0x01), (''right'', 0x04), (''middle'', 0x02)]"

text \<open>The result text of a click: \<open>`${clickType} ${button} button at (${x}, ${y})`\<close>.\<close>

definition clickText :: "bool \<Rightarrow> string \<Rightarrow> int \<Rightarrow> int \<Rightarrow> string" where
  "clickText isDouble name x y =
     (if isDouble then ''double-clicked'' else ''clicked'') @ '' '' @ name @
     '' button at ('' @ showInt x @ '', '' @ showInt y @ '')''"

text \<open>The body that \<open>handleClick\<close> runs on the live session.\<close>

definition handleClick :: "VncClient \<Rightarrow> click_args \<Rightarrow> vnc_error + client_event list \<times> tool_result" where
  "handleClick client args =
     (let coordValidation = validateCoordinates client (click_x args) (click_y args)
      in if \<not> valid coordValidation
         then Inl (CoordinateOutOfBounds (case error coordValidation of None \<Rightarrow> [] | Some m \<Rightarrow> m))
      else
        let button = (case button args of None \<Rightarrow> ''left'' | Some b \<Rightarrow> if b = [] then ''left'' else b);
            isDouble = (case double args of None \<Rightarrow> False | Some d \<Rightarrow> d);
            buttonMask = orElse (propertyLookup buttonMap button) (JNum 0x01);
            x = click_x args; y = click_y args;
            events =
              (if isDouble then
                 [SendPointerEvent x y buttonMask, Sleep 50, SendPointerEvent x y (JNum 0), Sleep 50,
                  SendPointerEvent x y buttonMask, Sleep 50, SendPointerEvent x y (JNum 0)]
               else
                 [SendPointerEvent x y buttonMask, Sleep 100, SendPointerEvent x y (JNum 0)])
        in Inr (events, \<lparr>text_of = clickText isDouble button x y, image_of = None\<rparr>))"

text \<open>The two loops of \<open>handleKeyPress\<close> over the modifier keysyms.\<close>

fun pressModifiers :: "jsvalue list \<Rightarrow> client_event list" where
  "pressModifiers [] = []"
| "pressModifiers (modKeysym # rest) = SendKeyEvent modKeysym True # Sleep 10 # pressModifiers rest"

text \<open>
  \<open>for (let i = length - 1; i >= 0; i--)\<close>: the second argument counts the keysyms still
  to release, so the index released next is one below it.
\<close>

fun releaseModifiers :: "jsvalue list \<Rightarrow> nat \<Rightarrow> client_event list" where
  "releaseModifiers modifierKeysyms 0 = []"
| "releaseModifiers modifierKeysyms (Suc i) =
     SendKeyEvent (modifierKeysyms ! i) False # Sleep 10 # releaseModifiers modifierKeysyms i"

definition handleKeyPress :: "string \<Rightarrow> client_event list \<times> tool_result" where
  "handleKeyPress keyArg =
     (let parsed = parseKeyInput keyArg;
          events =
            (if length (modifiers parsed) = 0 then
               (let keysym = getKeysym (key parsed)
                in [SendKeyEvent keysym True, Sleep 50, SendKeyEvent keysym False])
             else
               (let modifierKeysyms = map getKeysym (modifiers parsed);
                    mainKeysym = getKeysym (key parsed)
                in pressModifiers modifierKeysyms @
                   [SendKeyEvent mainKeysym True, Sleep 50, SendKeyEvent mainKeysym False, Sleep 10] @
                   releaseModifiers modifierKeysyms (length modifierKeysyms)))
      in (events, \<lparr>text_of = ''Pressed key combination: '' @ keyArg, image_of = None\<rparr>))"

section \<open>Screenshots (src/tools/screenshot.ts)\<close>

subsection \<open>Numbers and bytes\<close>

text \<open>\<open>a / b\<close> on two lengths: a ratio, or \<open>Infinity\<close> or \<open>NaN\<close> when \<open>b\<close> is 0.\<close>

definition jsDivide :: "nat \<Rightarrow> nat \<Rightarrow> quotient" where
  "jsDivide a b =
     (if b = 0 then (if a = 0 then NotANumber else Infinite) else Finite (of_nat a / of_nat b))"

text \<open>
  \<open>buffer[i]\<close> is \<open>undefined\<close> out of range; a byte store and a bitwise operator both
  take \<open>undefined\<close> as 0. A store out of range does nothing, as \<open>list_update\<close> does.
\<close>

definition byteAt :: "buffer \<Rightarrow> nat \<Rightarrow> byte" where
  "byteAt b i = (if i < length b then b ! i else 0)"

text \<open>\<open>x >> n\<close>: an arithmetic shift of the 32-bit value by \<open>n\<close> modulo 32.\<close>

definition jsShiftRight :: "32 word \<Rightarrow> nat \<Rightarrow> 32 word" where
  "jsShiftRight x n = signed_drop_bit (n mod 32) x"

text \<open>\<open>buffer.readUInt32LE(offset)\<close> throws a range error unless four bytes are there.\<close>

definition readUInt32LE :: "buffer \<Rightarrow> nat \<Rightarrow> vnc_error + 32 word" where
  "readUInt32LE b offset =
     (if offset + 4 \<le> length b
      then Inr (ucast (b ! offset) OR push_bit 8 (ucast (b ! (offset + 1)))
                OR push_bit 16 (ucast (b ! (offset + 2))) OR push_bit 24 (ucast (b ! (offset + 3))))
      else Inl BufferRangeError)"

subsection \<open>Conversion to RGBA\<close>

definition rgb24Pixel :: "buffer \<Rightarrow> nat \<Rightarrow> buffer \<Rightarrow> buffer" where
  "rgb24Pixel b i targetBuffer =
     (let srcOffset = i * 3; dstOffset = i * 4
      in targetBuffer
           [dstOffset := byteAt b srcOffset,
            dstOffset + 1 := byteAt b (srcOffset + 1),
            dstOffset + 2 := byteAt b (srcOffset + 2),
            dstOffset + 3 := 255])"

text \<open>
  The quotients \<open>(r5 * 255) / 31\<close> are fractions; the byte store keeps their integer
  part.
\<close>

definition rgb565Pixel :: "buffer \<Rightarrow> nat \<Rightarrow> buffer \<Rightarrow> buffer" where
  "rgb565Pixel b i targetBuffer =
     (let srcOffset = i * 2; dstOffset = i * 4;
          pixel16 = (ucast (byteAt b srcOffset) :: 32 word)
                      OR push_bit 8 (ucast (byteAt b (srcOffset + 1)));
          r5 = jsShiftRight pixel16 11 AND 0x1F;
          g6 = jsShiftRight pixel16 5 AND 0x3F;
          b5 = pixel16 AND 0x1F
      in targetBuffer
           [dstOffset := of_nat ((unat r5 * 255) div 31),
            dstOffset + 1 := of_nat ((unat g6 * 255) div 63),
            dstOffset + 2 := of_nat ((unat b5 * 255) div 31),
            dstOffset + 3 := 255])"

definition palettePixel :: "buffer \<Rightarrow> nat \<Rightarrow> buffer \<Rightarrow> buffer" where
  "palettePixel b i targetBuffer =
     (let dstOffset = i * 4; colorIndex = byteAt b i
      in targetBuffer
           [dstOffset := colorIndex,
            dstOffset + 1 := colorIndex,
            dstOffset + 2 := colorIndex,
            dstOffset + 3 := 255])"

text \<open>Each \<open>for (let i = 0; i < pixelCount; i++)\<close> is a fold over the indices.\<close>

definition convertToRGBA :: "buffer \<Rightarrow> nat \<Rightarrow> nat \<Rightarrow> PixelFormat \<Rightarrow> vnc_error + buffer" where
  "convertToRGBA b width height pf =
     (let pixelCount = width * height;
          sourceBytesPerPixel = jsDivide (length b) pixelCount;
          targetBuffer = replicate (pixelCount * 4) 0
      in if sourceBytesPerPixel = Finite 3 then Inr (fold (rgb24Pixel b) [0..<pixelCount] targetBuffer)
         else if sourceBytesPerPixel = Finite 2 then Inr (fold (rgb565Pixel b) [0..<pixelCount] targetBuffer)
         else if sourceBytesPerPixel = Finite 1 then Inr (fold (palettePixel b) [0..<pixelCount] targetBuffer)
         else Inl (UnsupportedPixelFormat sourceBytesPerPixel))"

definition needsPixelFormatConversion :: "PixelFormat \<Rightarrow> bool" where
  "needsPixelFormatConversion pf =
     (let isStandardRGBA =
        (redShift pf = 0 \<and> greenShift pf = 8 \<and> blueShift pf = 16 \<and>
         redMax pf = 255 \<and> greenMax pf = 255 \<and> blueMax pf = 255)
      in \<not> isStandardRGBA)"

definition bgrxPixel :: "PixelFormat \<Rightarrow> 32 word \<Rightarrow> nat \<Rightarrow> buffer \<Rightarrow> buffer" where
  "bgrxPixel pf pixel32 i targetBuffer =
     (let dstOffset = i * 4;
          extra = (if redMax pf = 65280 then 8 else 0);
          r = jsShiftRight pixel32 (redShift pf + extra) AND 0xFF;
          g = jsShiftRight pixel32 (greenShift pf + extra) AND 0xFF;
          b = jsShiftRight pixel32 (blueShift pf + extra) AND 0xFF
      in targetBuffer
           [dstOffset := ucast r,
            dstOffset + 1 := ucast g,
            dstOffset + 2 := ucast b,
            dstOffset + 3 := 255])"

text \<open>The loop of \<open>convertBGRXToRGBA\<close>; it ends early when a read throws.\<close>

fun bgrxLoop :: "PixelFormat \<Rightarrow> buffer \<Rightarrow> nat list \<Rightarrow> buffer \<Rightarrow> vnc_error + buffer" where
  "bgrxLoop pf b [] targetBuffer = Inr targetBuffer"
| "bgrxLoop pf b (i # rest) targetBuffer =
     (case readUInt32LE b (i * 4) of
        Inl e \<Rightarrow> Inl e
      | Inr pixel32 \<Rightarrow> bgrxLoop pf b rest (bgrxPixel pf pixel32 i targetBuffer))"

definition convertBGRXToRGBA :: "buffer \<Rightarrow> nat \<Rightarrow> nat \<Rightarrow> PixelFormat \<Rightarrow> vnc_error + buffer" where
  "convertBGRXToRGBA b width height pf =
     (let pixelCount = width * height
      in bgrxLoop pf b [0..<pixelCount] (replicate (pixelCount * 4) 0))"

subsection \<open>Double-precision arithmetic\<close>

text \<open>
  JavaScript numbers are IEEE 754 doubles. The resize computes
  \<open>Math.floor(width * Math.sqrt(800000 / length))\<close>, where the quotient, the root and the
  product are each the exact result rounded to the nearest double, ties to even. A
  positive double is \<open>mantissa * 2 ^ exponent\<close> with a mantissa of 53 bits. Lengths and
  dimensions are integers below \<open>2 ^ 53\<close>, which doubles hold exactly; the quotients,
  roots and products of this computation lie between \<open>2 ^ -53\<close> and \<open>2 ^ 53\<close>, far
  inside the exponent range, which is therefore left unbounded.
\<close>

record float64 =
  mantissa :: nat
  exponent :: int


text \<open>The number of binary digits of \<open>n\<close>.\<close>

fun bitLength :: "nat \<Rightarrow> nat" where
  "bitLength n = (if n = 0 then 0 else Suc (bitLength (n div 2)))"

declare bitLength.simps [simp del]

text \<open>\<open>n * 2 ^ k\<close> for \<open>k\<close> above 0, and \<open>n\<close> itself otherwise.\<close>

definition shiftLeft :: "nat \<Rightarrow> int \<Rightarrow> nat" where
  "shiftLeft n k = n * 2 ^ nat k"

text \<open>The integer nearest to \<open>n / d\<close>, the even one of two that are equally near.\<close>

definition roundHalfEven :: "nat \<Rightarrow> nat \<Rightarrow> nat" where
  "roundHalfEven n d =
     (let q = n div d; r = n mod d
      in if 2 * r < d then q else if d < 2 * r then q + 1 else if even q then q else q + 1)"

text \<open>Rounding up can reach \<open>2 ^ 53\<close>, which is \<open>2 ^ 52\<close> at the next exponent.\<close>

definition normalize53 :: "nat \<Rightarrow> int \<Rightarrow> float64" where
  "normalize53 m e =
     (if m = 2 ^ 53 then \<lparr>mantissa = 2 ^ 52, exponent = e + 1\<rparr> else \<lparr>mantissa = m, exponent = e\<rparr>)"

text \<open>
  \<open>a / b\<close> for two positive integers: \<open>p\<close> is the binary exponent of the exact
  quotient, so that the quotient divided by \<open>2 ^ (p - 52)\<close> has 53 digits before the
  point, and is rounded there.
\<close>

definition divDouble :: "nat \<Rightarrow> nat \<Rightarrow> float64" where
  "divDouble a b =
     (let d = int (bitLength a) - int (bitLength b);
          p = (if shiftLeft b d \<le> shiftLeft a (- d) then d else d - 1);
          e = p - 52
      in normalize53 (roundHalfEven (shiftLeft a (- e)) (shiftLeft b e)) e)"

text \<open>The integer square root, found bit by bit from the highest of \<open>n\<close> bits.\<close>

fun sqrtBits :: "nat \<Rightarrow> nat \<Rightarrow> nat \<Rightarrow> nat" where
  "sqrtBits 0 x r = r"
| "sqrtBits (Suc n) x r = (let c = r + 2 ^ n in if c * c \<le> x then sqrtBits n x c else sqrtBits n x r)"

text \<open>
  \<open>Math.sqrt\<close> of a double with a 53-bit mantissa: the mantissa is scaled by an even
  power of two to 105 or 106 bits, whose integer root \<open>k\<close> has 53 bits; the root is
  rounded up when the remainder exceeds \<open>k\<close>, that is, when it lies above \<open>k + 1/2\<close>.
\<close>

definition sqrtDouble :: "float64 \<Rightarrow> float64" where
  "sqrtDouble d =
     (let s = (if even (exponent d) then 52 else 53);
          e = (exponent d - int s) div 2;
          x = mantissa d * 2 ^ s;
          k = sqrtBits 53 x 0
      in normalize53 (if x - k * k \<le> k then k else k + 1) e)"

text \<open>\<open>w * d\<close> for an integer \<open>w\<close>: the exact product, rounded when it exceeds 53 bits.\<close>

definition mulDouble :: "nat \<Rightarrow> float64 \<Rightarrow> float64" where
  "mulDouble w d =
     (let p = w * mantissa d; n = bitLength p
      in if n \<le> 53 then \<lparr>mantissa = p, exponent = exponent d\<rparr>
         else normalize53 (roundHalfEven p (2 ^ (n - 53))) (exponent d + int (n - 53)))"

text \<open>\<open>Math.floor\<close> of a double that is not negative.\<close>

definition floorDouble :: "float64 \<Rightarrow> nat" where
  "floorDouble d =
     (if 0 \<le> exponent d then mantissa d * 2 ^ nat (exponent d)
      else mantissa d div 2 ^ nat (- exponent d))"

subsection \<open>Image encoding\<close>

text \<open>
  The image library is outside the repository and enters as a parameter: \<open>jpeg\<close> takes
  the quality, the progressive flag, the dimensions to resize to (if any), the width and
  height of the raw RGBA input and the input itself; \<open>base64\<close> is
  \<open>Buffer.toString('base64')\<close>. The corruption scan \<open>hasCorruptionPatterns\<close> only writes
  to the log and is left out.
\<close>

record encoder =
  jpeg :: "nat \<Rightarrow> bool \<Rightarrow> (nat \<times> nat) option \<Rightarrow> nat \<Rightarrow> nat \<Rightarrow> buffer \<Rightarrow> buffer"
  base64 :: "buffer \<Rightarrow> string"

definition captureScreenshotWithDimensions ::
    "encoder \<Rightarrow> nat \<Rightarrow> nat \<Rightarrow> buffer \<Rightarrow> int \<Rightarrow> vnc_error + tool_result" where
  "captureScreenshotWithDimensions enc width height framebuffer delay =
     (let pixelCount = width * height;
          bytesPerPixel = jsDivide (length framebuffer) pixelCount
      in if bytesPerPixel \<noteq> Finite 4 then Inl (InvalidBytesPerPixel bytesPerPixel)
      else
        let imageBuffer = jpeg enc 80 True None width height framebuffer;
            tooLarge = (length imageBuffer > 800000);
            scaleFactor = sqrtDouble (divDouble 800000 (length imageBuffer));
            finalWidth = (if tooLarge then floorDouble (mulDouble width scaleFactor) else width);
            finalHeight = (if tooLarge then floorDouble (mulDouble height scaleFactor) else height);
            finalBuffer =
              (if tooLarge
               then jpeg enc 75 False (Some (finalWidth, finalHeight)) width height framebuffer
               else imageBuffer);
            base64Data = base64 enc finalBuffer;
            delayText = (if delay > 0 then '' (after '' @ showInt delay @ ''ms delay)'' else []);
            sizeInfo =
              (if finalWidth \<noteq> width
               then '' (resized from '' @ showNat width @ ''x'' @ showNat height @ '')'' else [])
        in Inr \<lparr>text_of = ''Screenshot captured ('' @ showNat finalWidth @ ''x'' @
                   showNat finalHeight @ '')'' @ sizeInfo @ delayText,
                image_of = Some (base64Data, ''image/jpeg'')\<rparr>)"

subsection \<open>The screenshot tool\<close>

text \<open>
  How the wait for the \<open>frameUpdated\<close> event ends: the event arrives first, with the
  framebuffer it carries (\<open>None\<close> when it carries none), or the 2000 ms timer fires first.
\<close>

datatype frame_outcome = FrameArrived "buffer option" | TimerFired

text \<open>
  The promise inside the \<open>try\<close> block: the event handler clears the timer and resolves;
  the timer removes the listener and rejects.
\<close>

fun awaitFrameUpdate :: "frame_outcome \<Rightarrow> client_event list \<times> (vnc_error + buffer option)" where
  "awaitFrameUpdate (FrameArrived fbo) = ([ClearTimeout], Inr fbo)"
| "awaitFrameUpdate TimerFired = ([RemoveListener], Inl FrameUpdateTimeout)"

text \<open>
  How the \<open>try\<close> block ends. Its two calls into the RFB library, \<open>requestFrameUpdate\<close>
  and \<open>once\<close>, may throw; otherwise the promise is awaited.
\<close>

datatype capture_outcome =
    RequestThrows string
  | ListenerThrows string
  | Awaited frame_outcome

definition tryFrameUpdate ::
    "nat \<Rightarrow> nat \<Rightarrow> capture_outcome \<Rightarrow> client_event list \<times> (vnc_error + buffer option)" where
  "tryFrameUpdate width height outcome =
     (let request = RequestFrameUpdate [ABool True, ANum 0, ANum 0, ANum width, ANum height]
      in case outcome of
           RequestThrows message \<Rightarrow> ([request], Inl (LibraryError message))
         | ListenerThrows message \<Rightarrow> ([request], Inl (LibraryError message))
         | Awaited waited \<Rightarrow>
             (let (events, awaited) = awaitFrameUpdate waited
              in ([request, OnceFrameUpdated, SetTimeout 2000] @ events, awaited)))"

text \<open>
  The \<open>try\<close>/\<open>catch\<close>: the handler is \<open>catch (error)\<close>, so whatever the block throws,
  the session's framebuffer is taken.
\<close>

definition captureFramebuffer ::
    "VncClient \<Rightarrow> nat \<Rightarrow> nat \<Rightarrow> capture_outcome \<Rightarrow> client_event list \<times> buffer option" where
  "captureFramebuffer client width height outcome =
     (let (events, attempted) = tryFrameUpdate width height outcome
      in (events, case attempted of Inr fbo \<Rightarrow> fbo | Inl e \<Rightarrow> fb client))"

definition normalizeFramebuffer :: "buffer \<Rightarrow> nat \<Rightarrow> nat \<Rightarrow> PixelFormat \<Rightarrow> vnc_error + buffer" where
  "normalizeFramebuffer framebuffer width height pf =
     (let actualBytesPerPixel = jsDivide (length framebuffer) (width * height)
      in if actualBytesPerPixel \<noteq> Finite 4 then convertToRGBA framebuffer width height pf
         else Inr framebuffer)"

definition validateFramebufferSize :: "nat \<Rightarrow> nat \<Rightarrow> buffer \<Rightarrow> vnc_error + buffer" where
  "validateFramebufferSize width height framebuffer =
     (let expectedBufferSize = width * height * 4
      in if length framebuffer \<noteq> expectedBufferSize
         then Inl (FramebufferSizeMismatch expectedBufferSize (length framebuffer))
         else Inr framebuffer)"

text \<open>Sequencing of steps that may throw.\<close>

fun andThen :: "vnc_error + 'a \<Rightarrow> ('a \<Rightarrow> vnc_error + 'b) \<Rightarrow> vnc_error + 'b" where
  "andThen (Inl e) f = Inl e"
| "andThen (Inr v) f = f v"

text \<open>The framebuffer that reaches the encoder: normalized, then checked for its size.\<close>

definition prepareFramebuffer :: "buffer \<Rightarrow> nat \<Rightarrow> nat \<Rightarrow> PixelFormat \<Rightarrow> vnc_error + buffer" where
  "prepareFramebuffer framebuffer width height pf =
     andThen (normalizeFramebuffer framebuffer width height pf) (validateFramebufferSize width height)"

text \<open>The body that \<open>handleScreenshot\<close> runs on the live session.\<close>

definition screenshotOnSession ::
    "encoder \<Rightarrow> VncClient \<Rightarrow> capture_outcome \<Rightarrow> int \<Rightarrow>
     client_event list \<times> (vnc_error + tool_result)" where
  "screenshotOnSession enc client outcome delay =
     (let width = orZero (clientWidth client); height = orZero (clientHeight client)
      in if width = 0 \<or> height = 0 then ([], Inl (InvalidScreenDimensions width height))
      else
        let (events, framebuffer) = captureFramebuffer client width height outcome
        in (events,
            case framebuffer of
              None \<Rightarrow> Inl NoFramebufferAvailable
            | Some fb0 \<Rightarrow>
                andThen (prepareFramebuffer fb0 width height (pixelFormat client))
                  (\<lambda>rgba. captureScreenshotWithDimensions enc width height rgba delay)))"

text \<open>
  \<open>handleScreenshot\<close> with \<open>executeWithConnection\<close>: the delay is checked and waited
  for, the connection is made (its outcome is a parameter), the body runs, and the session
  is disconnected whether the body returns or throws.
\<close>

definition handleScreenshot ::
    "encoder \<Rightarrow> vnc_error + VncClient \<Rightarrow> capture_outcome \<Rightarrow> int option \<Rightarrow>
     client_event list \<times> (vnc_error + tool_result)" where
  "handleScreenshot enc connection outcome delayArg =
     (let delay = (case delayArg of None \<Rightarrow> 0 | Some d \<Rightarrow> d)
      in if delay > 0 \<and> delay > 300000 then ([], Inl DelayTooLong)
      else
        let waited = (if delay > 0 then [Sleep (nat delay)] else [])
        in case connection of
             Inl e \<Rightarrow> (waited, Inl e)
           | Inr client \<Rightarrow>
               (let (events, result) = screenshotOnSession enc client outcome delay
                in (waited @ events @ [Disconnect], result)))"

text \<open>
  Modelled from the spec: the parameter list of the RFB library's \<open>requestFrameUpdate\<close>,
  which is outside the repository. The spec gives the request as (incremental flag,
  region); the arguments of a call are read in that order.
\<close>

record frame_request =
  incremental :: bool
  region_x :: nat
  region_y :: nat
  region_width :: nat
  region_height :: nat

fun readRequest :: "argument list \<Rightarrow> frame_request option" where
  "readRequest [ABool i, ANum x, ANum y, ANum w, ANum h] =
     Some \<lparr>incremental = i, region_x = x, region_y = y, region_width = w, region_height = h\<rparr>"
| "readRequest _ = None"

section \<open>Connection setup (src/vnc/client.ts)\<close>

text \<open>
  \<open>createConnection\<close> builds a promise, registers its handlers on the client and sets a
  timer of 15000 ms. The state holds what the handlers share: the promise, the flag
  \<open>hasReceivedInitialFramebuffer\<close>, the timers that are set and have neither fired nor
  been cleared, the number of calls of \<open>resolve\<close> and \<open>reject\<close> so far, and the frame
  requests sent. A promise settles once: a later \<open>resolve\<close> or \<open>reject\<close> is a call
  without effect.
\<close>

datatype promise_state = Pending | Resolved | Rejected vnc_error

record connection_state =
  promise :: promise_state
  hasReceivedInitialFramebuffer :: bool
  timers :: "nat list"
  settlements :: nat
  requests :: "argument list list"

datatype connection_event =
    Connected
  | Authenticated
  | FrameUpdated
  | ErrorEvent string
  | Disconnected string
  | TimerFires

definition settle :: "promise_state \<Rightarrow> connection_state \<Rightarrow> connection_state" where
  "settle outcome st =
     st\<lparr>promise := (if promise st = Pending then outcome else promise st),
        settlements := Suc (settlements st)\<rparr>"

definition createConnection :: connection_state where
  "createConnection =
     \<lparr>promise = Pending, hasReceivedInitialFramebuffer = False, timers = [15000],
      settlements = 0, requests = []\<rparr>"

text \<open>
  One handler per event. No handler clears the timer: the identifier that \<open>setTimeout\<close>
  returns is not kept.
\<close>

fun handleEvent :: "VncClient \<Rightarrow> connection_state \<Rightarrow> connection_event \<Rightarrow> connection_state" where
  "handleEvent client st Connected = st"
| "handleEvent client st Authenticated =
     (let screenWidth = orZero (clientWidth client); screenHeight = orZero (clientHeight client)
      in st\<lparr>requests := requests st @
               [[ABool False, ANum 0, ANum 0, ANum screenWidth, ANum screenHeight]]\<rparr>)"
| "handleEvent client st FrameUpdated =
     (if \<not> hasReceivedInitialFramebuffer st
      then settle Resolved (st\<lparr>hasReceivedInitialFramebuffer := True\<rparr>)
      else st)"
| "handleEvent client st (ErrorEvent message) =
     settle (Rejected (ConnectionError (''VNC connection error: '' @ message))) st"
| "handleEvent client st (Disconnected reason) = st"
| "handleEvent client st TimerFires =
     (case timers st of
        [] \<Rightarrow> st
      | t # rest \<Rightarrow> settle (Rejected ConnectionTimeout) (st\<lparr>timers := rest\<rparr>))"

definition runConnection :: "VncClient \<Rightarrow> connection_event list \<Rightarrow> connection_state" where
  "runConnection client events = foldl (handleEvent client) createConnection events"

section \<open>Properties\<close>

subsection \<open>Printing numbers\<close>

lemma showNat_digit: "n < 10 \<Longrightarrow> showNat n = [digitChar n]"
  by (simp add: showNat.simps)

lemma showNat_step: "10 \<le> n \<Longrightarrow> showNat n = showNat (n div 10) @ [digitChar (n mod 10)]"
  by (subst showNat.simps) simp

subsection \<open>Coordinate validation\<close>

text \<open>
  C4. When the screen width or height of the session is unknown (zero), every point is
  reported valid. Otherwise validation succeeds exactly for \<open>0 \<le> x < width\<close> and
  \<open>0 \<le> y < height\<close>; every other point, in particular \<open>x = width\<close> and \<open>y = height\<close>,
  fails with the bounds message, which names the inclusive range from (0, 0) to
  (width - 1, height - 1).
\<close>

theorem validateCoordinates_bounds:
  fixes client :: VncClient
  defines "w \<equiv> int (orZero (clientWidth client))"
    and "h \<equiv> int (orZero (clientHeight client))"
  shows "(w = 0 \<or> h = 0 \<longrightarrow> validateCoordinates client x y = \<lparr>valid = True, error = None\<rparr>)
    \<and> (w \<noteq> 0 \<and> h \<noteq> 0 \<longrightarrow>
         (valid (validateCoordinates client x y) \<longleftrightarrow> 0 \<le> x \<and> x < w \<and> 0 \<le> y \<and> y < h)
       \<and> (0 \<le> x \<and> x < w \<and> 0 \<le> y \<and> y < h \<longrightarrow>
            validateCoordinates client x y = \<lparr>valid = True, error = None\<rparr>)
       \<and> (\<not> (0 \<le> x \<and> x < w \<and> 0 \<le> y \<and> y < h) \<longrightarrow>
            validateCoordinates client x y =
              \<lparr>valid = False,
               error = Some (''Coordinates ('' @ showInt x @ '', '' @ showInt y @
                 '') are outside screen bounds (0, 0) to ('' @ showInt (w - 1) @ '', '' @
                 showInt (h - 1) @ '')'')\<rparr>)
       \<and> \<not> valid (validateCoordinates client w y)
       \<and> \<not> valid (validateCoordinates client x h))"
  unfolding w_def h_def
  by (auto simp: validateCoordinates_def boundsMessage_def Let_def)

theorem validateCoordinates_bounds_witness:
  "validateCoordinates
     \<lparr>clientWidth = None, clientHeight = Some 768, fb = None, pixelFormat = standardRGBA\<rparr> 5000 (- 3)
     = \<lparr>valid = True, error = None\<rparr>
   \<and> validateCoordinates
     \<lparr>clientWidth = Some 1024, clientHeight = Some 768, fb = None, pixelFormat = standardRGBA\<rparr> 1023 0
     = \<lparr>valid = True, error = None\<rparr>
   \<and> validateCoordinates
     \<lparr>clientWidth = Some 1024, clientHeight = Some 768, fb = None, pixelFormat = standardRGBA\<rparr> 1024 10
     = \<lparr>valid = False,
        error = Some ''Coordinates (1024, 10) are outside screen bounds (0, 0) to (1023, 767)''\<rparr>"
  using
    validateCoordinates_bounds
      [of "\<lparr>clientWidth = None, clientHeight = Some 768, fb = None, pixelFormat = standardRGBA\<rparr>" 5000 "- 3"]
    validateCoordinates_bounds
      [of "\<lparr>clientWidth = Some 1024, clientHeight = Some 768, fb = None, pixelFormat = standardRGBA\<rparr>" 1023 0]
    validateCoordinates_bounds
      [of "\<lparr>clientWidth = Some 1024, clientHeight = Some 768, fb = None, pixelFormat = standardRGBA\<rparr>" 1024 10]
  by (simp add: showInt_def showNat_digit showNat_step digitChar_def)

subsection \<open>Key combinations\<close>

lemma jsSplit_no_sep: "sep \<notin> set t \<Longrightarrow> jsSplit sep (t @ sep # s) = t # jsSplit sep s"
  by (induction t) (auto split: list.splits)

lemma jsSplit_token: "sep \<notin> set t \<Longrightarrow> jsSplit sep t = [t]"
  by (induction t) (auto split: list.splits)

lemma jsSplit_plusJoin:
  "ts \<noteq> [] \<Longrightarrow> \<forall>t \<in> set ts. CHR ''+'' \<notin> set t \<Longrightarrow> jsSplit CHR ''+'' (plusJoin ts) = ts"
  by (induction ts rule: plusJoin.induct) (auto simp: jsSplit_token jsSplit_no_sep)

lemma pressModifiers_eq:
  "pressModifiers ks = concat (map (\<lambda>k. [SendKeyEvent k True, Sleep 10]) ks)"
  by (induction ks) auto

lemma releaseModifiers_take:
  "n \<le> length ks \<Longrightarrow>
   releaseModifiers ks n = concat (map (\<lambda>k. [SendKeyEvent k False, Sleep 10]) (rev (take n ks)))"
  by (induction n) (auto simp: take_Suc_conv_app_nth)

lemma releaseModifiers_eq:
  "releaseModifiers ks (length ks) = concat (map (\<lambda>k. [SendKeyEvent k False, Sleep 10]) (rev ks))"
  by (simp add: releaseModifiers_take)

lemma parseKeyInput_combination:
  assumes "ms \<noteq> []" and "\<forall>t \<in> set (ms @ [k]). CHR ''+'' \<notin> set t"
  shows "parseKeyInput (plusJoin (ms @ [k])) = \<lparr>modifiers = map trim ms, key = trim k\<rparr>"
proof -
  have parts: "jsSplit CHR ''+'' (plusJoin (ms @ [k])) = ms @ [k]"
    using assms(2) by (intro jsSplit_plusJoin) auto
  have "length (map trim (ms @ [k])) \<noteq> 1"
    using assms(1) by (cases ms) auto
  then show ?thesis
    by (simp add: parseKeyInput_def parts Let_def butlast_append)
qed

lemma handleKeyPress_Shift_F10:
  "fst (handleKeyPress ''Shift+F10'') =
     [SendKeyEvent (JNum 0xffe1) True, Sleep 10, SendKeyEvent (JNum 0xffc7) True, Sleep 50,
      SendKeyEvent (JNum 0xffc7) False, Sleep 10, SendKeyEvent (JNum 0xffe1) False, Sleep 10]"
  by (simp add: handleKeyPress_def parseKeyInput_def trim_def isWhiteSpace_def Let_def
      getKeysym_def propertyLookup_def keyMap_def)

text \<open>
  C5. For a key combination \<open>M1+...+Mn+K\<close> with at least one modifier, the key-press tool
  sends exactly: a press of each modifier's keysym in the listed order, each followed by
  a pause of 10 ms; a press of the main keysym; a pause of 50 ms; the release of the main
  keysym; a pause of 10 ms; and the releases of the modifiers' keysyms in reverse order,
  each followed by a pause of 10 ms. The keysym of a name is that of the name with
  surrounding white space removed. In particular \<open>Shift+F10\<close> gives press Shift, press
  F10, release F10, release Shift.
\<close>

theorem handleKeyPress_combination:
  "(ms \<noteq> [] \<and> (\<forall>t \<in> set (ms @ [k]). CHR ''+'' \<notin> set t) \<longrightarrow>
      fst (handleKeyPress (plusJoin (ms @ [k]))) =
        concat (map (\<lambda>m. [SendKeyEvent (getKeysym (trim m)) True, Sleep 10]) ms) @
        [SendKeyEvent (getKeysym (trim k)) True, Sleep 50,
         SendKeyEvent (getKeysym (trim k)) False, Sleep 10] @
        concat (map (\<lambda>m. [SendKeyEvent (getKeysym (trim m)) False, Sleep 10]) (rev ms)))
   \<and> fst (handleKeyPress ''Shift+F10'') =
        [SendKeyEvent (JNum 0xffe1) True, Sleep 10, SendKeyEvent (JNum 0xffc7) True, Sleep 50,
         SendKeyEvent (JNum 0xffc7) False, Sleep 10, SendKeyEvent (JNum 0xffe1) False, Sleep 10]"
proof (intro conjI impI)
  assume h: "ms \<noteq> [] \<and> (\<forall>t \<in> set (ms @ [k]). CHR ''+'' \<notin> set t)"
  then have "parseKeyInput (plusJoin (ms @ [k])) = \<lparr>modifiers = map trim ms, key = trim k\<rparr>"
    by (intro parseKeyInput_combination) auto
  with h show "fst (handleKeyPress (plusJoin (ms @ [k]))) =
        concat (map (\<lambda>m. [SendKeyEvent (getKeysym (trim m)) True, Sleep 10]) ms) @
        [SendKeyEvent (getKeysym (trim k)) True, Sleep 50,
         SendKeyEvent (getKeysym (trim k)) False, Sleep 10] @
        concat (map (\<lambda>m. [SendKeyEvent (getKeysym (trim m)) False, Sleep 10]) (rev ms))"
    by (simp add: handleKeyPress_def Let_def pressModifiers_eq releaseModifiers_eq
        rev_map comp_def map_concat)
next
  show "fst (handleKeyPress ''Shift+F10'') =
        [SendKeyEvent (JNum 0xffe1) True, Sleep 10, SendKeyEvent (JNum 0xffc7) True, Sleep 50,
         SendKeyEvent (JNum 0xffc7) False, Sleep 10, SendKeyEvent (JNum 0xffe1) False, Sleep 10]"
    by (rule handleKeyPress_Shift_F10)
qed

lemma getKeysym_Ctrl: "getKeysym ''Ctrl'' = JNum 0xffe3"
  by (simp add: getKeysym_def propertyLookup_def keyMap_def)

lemma getKeysym_Alt: "getKeysym ''Alt'' = JNum 0xffe9"
  by (simp add: getKeysym_def propertyLookup_def keyMap_def)

lemma getKeysym_Delete: "getKeysym ''Delete'' = JNum 0xffff"
  by (simp add: getKeysym_def propertyLookup_def keyMap_def)

theorem handleKeyPress_combination_witness:
  "fst (handleKeyPress ''Ctrl+Alt+Delete'') =
     [SendKeyEvent (JNum 0xffe3) True, Sleep 10, SendKeyEvent (JNum 0xffe9) True, Sleep 10,
      SendKeyEvent (JNum 0xffff) True, Sleep 50, SendKeyEvent (JNum 0xffff) False, Sleep 10,
      SendKeyEvent (JNum 0xffe9) False, Sleep 10, SendKeyEvent (JNum 0xffe3) False, Sleep 10]"
  using handleKeyPress_combination [of "[''Ctrl'', ''Alt'']" "''Delete''"]
  by (simp add: trim_def isWhiteSpace_def getKeysym_Ctrl getKeysym_Alt getKeysym_Delete)

subsection \<open>Keysym lookup\<close>

lemma getKeysym_fallback:
  "map_of keyMap k = None \<Longrightarrow> k \<notin> set objectPrototypeMembers \<Longrightarrow> getKeysym k = charCodeAt0 k"
  by (simp add: getKeysym_def propertyLookup_def)

lemma getKeysym_misspelled: "getKeysym ''Entr'' = JNum 69"
  by (simp add: getKeysym_def propertyLookup_def keyMap_def objectPrototypeMembers_def)

text \<open>
  C10. The claim is that every non-empty name outside the key table is mapped to the
  character code of its first character. The lookup \<open>keyMap[key]\<close> also finds the
  members inherited from \<open>Object.prototype\<close>: the name \<open>constructor\<close> is not in the
  table, yet the lookup is truthy, the fallback \<open>key.charCodeAt(0)\<close> is not taken, and the
  result is the inherited member instead of 99, the code of \<open>c\<close>.
\<close>

theorem getKeysym_constructor:
  "map_of keyMap ''constructor'' = None
   \<and> getKeysym ''constructor'' = JInherited ''constructor''
   \<and> charCodeAt0 ''constructor'' = JNum 99"
  by (simp add: getKeysym_def propertyLookup_def keyMap_def objectPrototypeMembers_def)

subsection \<open>Clicks\<close>

text \<open>
  C9, as stated: every click whose button is a string other than \<open>left\<close>, \<open>right\<close> and
  \<open>middle\<close> falls back to mask 1 and reports the caller's button name. The empty string
  is such a button, but \<open>args.button || 'left'\<close> replaces it by \<open>left\<close> before the text is
  built: the text names \<open>left\<close>, not the caller's (empty) name.
\<close>

theorem handleClick_empty_button:
  "[] \<notin> {''left'', ''right'', ''middle''}
   \<and> handleClick \<lparr>clientWidth = Some 1024, clientHeight = Some 768, fb = None,
                   pixelFormat = standardRGBA\<rparr>
                 \<lparr>click_x = 5, click_y = 7, button = Some [], double = None\<rparr>
       = Inr ([SendPointerEvent 5 7 (JNum 1), Sleep 100, SendPointerEvent 5 7 (JNum 0)],
              \<lparr>text_of = ''clicked left button at (5, 7)'', image_of = None\<rparr>)
   \<and> ''clicked left button at (5, 7)'' \<noteq> clickText False [] 5 7"
  by (simp add: handleClick_def validateCoordinates_def buttonMap_def propertyLookup_def
      clickText_def Let_def showInt_def showNat_digit digitChar_def)

text \<open>
  C9, amended. For a click at valid coordinates whose button is a non-empty string other
  than \<open>left\<close>, \<open>right\<close> and \<open>middle\<close>, and not the name of a member inherited from
  \<open>Object.prototype\<close>, the click is performed with the left-button mask 1 (press, pause,
  release; twice with 50 ms pauses for a double click) and the text reports the caller's
  button name. An empty button string is treated as absent: mask 1, and the text reports
  \<open>left\<close>.
\<close>

theorem handleClick_unknown_button:
  assumes "valid (validateCoordinates client x y)"
  shows "(b \<noteq> [] \<and> b \<notin> {''left'', ''right'', ''middle''} \<and> b \<notin> set objectPrototypeMembers \<longrightarrow>
          handleClick client \<lparr>click_x = x, click_y = y, button = Some b, double = d\<rparr> =
            Inr (if d = Some True
                 then [SendPointerEvent x y (JNum 1), Sleep 50, SendPointerEvent x y (JNum 0), Sleep 50,
                       SendPointerEvent x y (JNum 1), Sleep 50, SendPointerEvent x y (JNum 0)]
                 else [SendPointerEvent x y (JNum 1), Sleep 100, SendPointerEvent x y (JNum 0)],
                 \<lparr>text_of = clickText (d = Some True) b x y, image_of = None\<rparr>))
       \<and> handleClick client \<lparr>click_x = x, click_y = y, button = Some [], double = d\<rparr> =
            Inr (if d = Some True
                 then [SendPointerEvent x y (JNum 1), Sleep 50, SendPointerEvent x y (JNum 0), Sleep 50,
                       SendPointerEvent x y (JNum 1), Sleep 50, SendPointerEvent x y (JNum 0)]
                 else [SendPointerEvent x y (JNum 1), Sleep 100, SendPointerEvent x y (JNum 0)],
                 \<lparr>text_of = clickText (d = Some True) ''left'' x y, image_of = None\<rparr>)"
  using assms
  by (cases d) (auto simp: handleClick_def buttonMap_def propertyLookup_def Let_def)

theorem handleClick_unknown_button_witness:
  "handleClick \<lparr>clientWidth = Some 1024, clientHeight = Some 768, fb = None,
                 pixelFormat = standardRGBA\<rparr>
               \<lparr>click_x = 5, click_y = 7, button = Some ''primary'', double = Some True\<rparr>
     = Inr ([SendPointerEvent 5 7 (JNum 1), Sleep 50, SendPointerEvent 5 7 (JNum 0), Sleep 50,
             SendPointerEvent 5 7 (JNum 1), Sleep 50, SendPointerEvent 5 7 (JNum 0)],
            \<lparr>text_of = ''double-clicked primary button at (5, 7)'', image_of = None\<rparr>)"
  using handleClick_unknown_button
    [of "\<lparr>clientWidth = Some 1024, clientHeight = Some 768, fb = None,
          pixelFormat = standardRGBA\<rparr>" 5 7 "''primary''" "Some True"]
  by (simp add: validateCoordinates_def objectPrototypeMembers_def clickText_def Let_def
      showInt_def showNat_digit digitChar_def)

subsection \<open>The length of the normalized framebuffer\<close>

lemma jsDivide_Finite_iff: "jsDivide a b = Finite (of_nat k) \<longleftrightarrow> b \<noteq> 0 \<and> a = k * b"
proof (cases "b = 0")
  case True
  then show ?thesis by (simp add: jsDivide_def)
next
  case False
  then have "(of_nat a / of_nat b = (of_nat k :: rat)) \<longleftrightarrow> (of_nat a :: rat) = of_nat k * of_nat b"
    by (simp add: field_simps)
  also have "\<dots> \<longleftrightarrow> (of_nat a :: rat) = of_nat (k * b)" by simp
  also have "\<dots> \<longleftrightarrow> a = k * b" by (simp only: of_nat_eq_iff)
  finally show ?thesis using False by (simp add: jsDivide_def)
qed

lemma jsDivide_4: "jsDivide a b = Finite 4 \<longleftrightarrow> b \<noteq> 0 \<and> a = 4 * b"
  using jsDivide_Finite_iff [of a b 4] by simp
lemma jsDivide_3: "jsDivide a b = Finite 3 \<longleftrightarrow> b \<noteq> 0 \<and> a = 3 * b"
  using jsDivide_Finite_iff [of a b 3] by simp
lemma jsDivide_2: "jsDivide a b = Finite 2 \<longleftrightarrow> b \<noteq> 0 \<and> a = 2 * b"
  using jsDivide_Finite_iff [of a b 2] by simp
lemma jsDivide_1: "jsDivide a b = Finite 1 \<longleftrightarrow> b \<noteq> 0 \<and> a = b"
  using jsDivide_Finite_iff [of a b 1] by simp

lemma length_fold_pixels:
  "(\<And>i t. length (f i t) = length t) \<Longrightarrow> length (fold f is t) = length t"
  by (induction "is" arbitrary: t) auto

lemma length_rgb24Pixel: "length (rgb24Pixel b i t) = length t"
  by (simp add: rgb24Pixel_def Let_def)
lemma length_rgb565Pixel: "length (rgb565Pixel b i t) = length t"
  by (simp add: rgb565Pixel_def Let_def)
lemma length_palettePixel: "length (palettePixel b i t) = length t"
  by (simp add: palettePixel_def Let_def)

lemma convertToRGBA_length:
  "convertToRGBA b width height pf = Inr rgba \<Longrightarrow> length rgba = width * height * 4"
  by (auto simp: convertToRGBA_def Let_def length_fold_pixels length_rgb24Pixel
      length_rgb565Pixel length_palettePixel split: if_splits)

lemma convertToRGBA_supported:
  assumes "0 < width * height" and "length b = k * (width * height)" and "k \<in> {1, 2, 3}"
  shows "\<exists>rgba. convertToRGBA b width height pf = Inr rgba"
  using assms by (auto simp: convertToRGBA_def Let_def jsDivide_3 jsDivide_2 jsDivide_1)

lemma normalizeFramebuffer_four:
  "jsDivide (length framebuffer) (width * height) = Finite 4 \<Longrightarrow>
   normalizeFramebuffer framebuffer width height pf = Inr framebuffer"
  by (simp add: normalizeFramebuffer_def)

text \<open>
  C6. For a source framebuffer of 1, 2, 3 or 4 bytes per pixel and a width and height above
  0, the framebuffer that reaches the image encoder has exactly width * height * 4 bytes.
  The length is checked after normalization: whatever passes the check has that length,
  and a framebuffer of another length gives the size-mismatch error and no image.
\<close>

theorem prepareFramebuffer_length:
  "(0 < width \<and> 0 < height \<and> bpp \<in> {1, 2, 3, 4} \<and> length framebuffer = bpp * (width * height) \<longrightarrow>
      (\<exists>rgba. prepareFramebuffer framebuffer width height pf = Inr rgba
             \<and> length rgba = width * height * 4))
   \<and> (prepareFramebuffer framebuffer width height pf = Inr rgba \<longrightarrow>
        length rgba = width * height * 4)
   \<and> (length rgba \<noteq> width * height * 4 \<longrightarrow>
        validateFramebufferSize width height rgba =
          Inl (FramebufferSizeMismatch (width * height * 4) (length rgba)))"
proof (intro conjI impI)
  assume h: "0 < width \<and> 0 < height \<and> bpp \<in> {1, 2, 3, 4}
             \<and> length framebuffer = bpp * (width * height)"
  show "\<exists>rgba. prepareFramebuffer framebuffer width height pf = Inr rgba
             \<and> length rgba = width * height * 4"
  proof (cases "bpp = 4")
    case True
    with h have "jsDivide (length framebuffer) (width * height) = Finite 4"
      by (simp add: jsDivide_4)
    then have "normalizeFramebuffer framebuffer width height pf = Inr framebuffer"
      by (rule normalizeFramebuffer_four)
    with h True show ?thesis
      by (simp add: prepareFramebuffer_def validateFramebufferSize_def)
  next
    case False
    with h have k: "bpp \<in> {1, 2, 3}" by auto
    from h False have "jsDivide (length framebuffer) (width * height) \<noteq> Finite 4"
      by (simp add: jsDivide_4)
    then have n: "normalizeFramebuffer framebuffer width height pf
                  = convertToRGBA framebuffer width height pf"
      by (simp add: normalizeFramebuffer_def)
    from h k obtain rgba where c: "convertToRGBA framebuffer width height pf = Inr rgba"
      using convertToRGBA_supported [of width height framebuffer bpp pf] by auto
    then have "length rgba = width * height * 4" by (rule convertToRGBA_length)
    with n c show ?thesis
      by (simp add: prepareFramebuffer_def validateFramebufferSize_def)
  qed
next
  assume "prepareFramebuffer framebuffer width height pf = Inr rgba"
  then show "length rgba = width * height * 4"
    by (cases "normalizeFramebuffer framebuffer width height pf")
       (auto simp: prepareFramebuffer_def validateFramebufferSize_def Let_def split: if_splits)
next
  assume "length rgba \<noteq> width * height * 4"
  then show "validateFramebufferSize width height rgba =
          Inl (FramebufferSizeMismatch (width * height * 4) (length rgba))"
    by (simp add: validateFramebufferSize_def)
qed

lemma upt_2: "[0..<2] = [0, Suc 0]"
  by (simp add: upt_rec)

lemma prepareFramebuffer_two_pixels:
  "prepareFramebuffer [0x00, 0xF8, 0xE0, 0x07] 2 1 standardRGBA
     = Inr [255, 0, 0, 255, 0, 255, 0, 255]"
  apply (simp add: prepareFramebuffer_def normalizeFramebuffer_def validateFramebufferSize_def
      jsDivide_def convertToRGBA_def upt_2 rgb565Pixel_def Let_def byteAt_def jsShiftRight_def)
  apply (simp add: numeral_eq_Suc)
  done

theorem prepareFramebuffer_length_witness:
  "prepareFramebuffer [0x00, 0xF8, 0xE0, 0x07] 2 1 standardRGBA
     = Inr [255, 0, 0, 255, 0, 255, 0, 255]
   \<and> length [255, 0, 0, 255, 0, 255, 0, 255 :: byte] = 2 * 1 * 4
   \<and> validateFramebufferSize 2 1 [255, 0, 0, 255] = Inl (FramebufferSizeMismatch 8 4)"
  using
    prepareFramebuffer_length
      [of 2 1 2 "[0x00, 0xF8, 0xE0, 0x07]" standardRGBA "[255, 0, 0, 255, 0, 255, 0, 255]"]
    prepareFramebuffer_length
      [of 2 1 2 "[0x00, 0xF8, 0xE0, 0x07]" standardRGBA "[255, 0, 0, 255]"]
    prepareFramebuffer_two_pixels
  by simp


subsection \<open>Image encoding\<close>












lemma mantissa_normalize53_le: "mantissa (normalize53 m e) \<le> m"
  by (simp add: normalize53_def)





text \<open>
  A screen of 2736 by 1824 whose first encoding has 1848320 bytes: the exact scale is
  25/38, which would give 1800 by 1200, but the rounded root lies just below it, and the
  program resizes to 1799 by 1199.
\<close>

lemma exact_scale_example:
  "(25 / 38 :: rat) * (25 / 38) = 800000 / 1848320 \<and> 2736 * (25 / 38 :: rat) = 1800
   \<and> 1824 * (25 / 38 :: rat) = 1200"
  by simp










subsection \<open>Four bytes per pixel\<close>

lemma upt_1: "[0..<1] = [0]"
  by (simp add: upt_rec)

text \<open>
  C1. The claim is that a framebuffer of four bytes per pixel passes unchanged when the
  format is the standard one and is decoded by the format's shifts otherwise. The tool
  converts only when the bytes per pixel differ from 4 (\<open>normalizeFramebuffer_four\<close>):
  \<open>needsPixelFormatConversion\<close> and \<open>convertBGRXToRGBA\<close> are never called. For one pixel
  with bytes 11 22 33 44 in a format with red at shift 16 and blue at shift 0, the format
  needs conversion and the decoder gives 33 22 11 FF, yet the bytes reach the encoder
  as they are.
\<close>

theorem normalizeFramebuffer_bgrx:
  "needsPixelFormatConversion (standardRGBA\<lparr>redShift := 16, blueShift := 0\<rparr>)
   \<and> jsDivide (length [0x11, 0x22, 0x33, 0x44 :: byte]) (1 * 1) = Finite 4
   \<and> normalizeFramebuffer [0x11, 0x22, 0x33, 0x44] 1 1 (standardRGBA\<lparr>redShift := 16, blueShift := 0\<rparr>)
       = Inr [0x11, 0x22, 0x33, 0x44]
   \<and> prepareFramebuffer [0x11, 0x22, 0x33, 0x44] 1 1 (standardRGBA\<lparr>redShift := 16, blueShift := 0\<rparr>)
       = Inr [0x11, 0x22, 0x33, 0x44]
   \<and> convertBGRXToRGBA [0x11, 0x22, 0x33, 0x44] 1 1 (standardRGBA\<lparr>redShift := 16, blueShift := 0\<rparr>)
       = Inr [0x33, 0x22, 0x11, 0xFF]"
  apply (simp add: needsPixelFormatConversion_def standardRGBA_def jsDivide_def
      normalizeFramebuffer_def prepareFramebuffer_def validateFramebufferSize_def
      convertBGRXToRGBA_def upt_1 readUInt32LE_def bgrxPixel_def jsShiftRight_def Let_def)
  apply (simp add: numeral_eq_Suc)
  done

subsection \<open>The frame-update request\<close>

text \<open>
  C2. The claim is that the capture step requests a non-incremental update of the whole
  screen before it waits up to 2000 ms. The request does come first, then the listener
  and the 2000 ms timer, and the region is the whole screen; but the flag written first
  in the call is \<open>true\<close>, where the request at connection setup, commented as the
  initial full framebuffer, writes \<open>false\<close> before the same region.
\<close>

theorem captureFramebuffer_request:
  "take 3 (fst (captureFramebuffer client width height (Awaited outcome))) =
     [RequestFrameUpdate [ABool True, ANum 0, ANum 0, ANum width, ANum height],
      OnceFrameUpdated, SetTimeout 2000]
   \<and> hd (fst (captureFramebuffer client width height attempt)) =
       RequestFrameUpdate [ABool True, ANum 0, ANum 0, ANum width, ANum height]
   \<and> readRequest [ABool True, ANum 0, ANum 0, ANum width, ANum height] =
       Some \<lparr>incremental = True, region_x = 0, region_y = 0,
             region_width = width, region_height = height\<rparr>
   \<and> requests (handleEvent client createConnection Authenticated) =
       [[ABool False, ANum 0, ANum 0, ANum (orZero (clientWidth client)),
         ANum (orZero (clientHeight client))]]"
proof -
  have "take 3 (fst (captureFramebuffer client width height (Awaited outcome))) =
     [RequestFrameUpdate [ABool True, ANum 0, ANum 0, ANum width, ANum height],
      OnceFrameUpdated, SetTimeout 2000]"
    by (cases outcome) (simp_all add: captureFramebuffer_def tryFrameUpdate_def Let_def)
  moreover have "hd (fst (captureFramebuffer client width height attempt)) =
       RequestFrameUpdate [ABool True, ANum 0, ANum 0, ANum width, ANum height]"
    by (cases attempt)
       (simp_all add: captureFramebuffer_def tryFrameUpdate_def Let_def split: prod.splits)
  ultimately show ?thesis
    by (simp add: createConnection_def Let_def)
qed

subsection \<open>The connection deadline\<close>

lemma timers_handleEvent:
  "ev \<noteq> TimerFires \<Longrightarrow> timers (handleEvent client st ev) = timers st"
  by (cases ev) (simp_all add: settle_def Let_def)

lemma timers_foldl:
  "TimerFires \<notin> set evs \<Longrightarrow> timers (foldl (handleEvent client) st evs) = timers st"
  by (induction evs arbitrary: st) (auto simp: timers_handleEvent)

lemma timer_never_cleared:
  "TimerFires \<notin> set evs \<Longrightarrow> timers (runConnection client evs) = [15000]"
  by (simp add: runConnection_def timers_foldl createConnection_def)

text \<open>
  C3. The claim is that the 15 s timer is cleared once the first framebuffer has resolved
  the promise. No handler clears it (\<open>timer_never_cleared\<close>): after the first frame the
  promise is resolved and the timer is still set; when it fires, \<open>reject\<close> is called on
  the settled promise, a second settlement call, without effect on the promise. The wait
  of the screenshot tool, by contrast, clears its timer when the event arrives.
\<close>

theorem createConnection_timer_left_pending:
  "promise (runConnection client [Connected, Authenticated, FrameUpdated]) = Resolved
   \<and> timers (runConnection client [Connected, Authenticated, FrameUpdated]) = [15000]
   \<and> settlements (runConnection client [Connected, Authenticated, FrameUpdated]) = 1
   \<and> promise (runConnection client [Connected, Authenticated, FrameUpdated, TimerFires]) = Resolved
   \<and> settlements (runConnection client [Connected, Authenticated, FrameUpdated, TimerFires]) = 2
   \<and> fst (awaitFrameUpdate (FrameArrived fbo)) = [ClearTimeout]"
  by (simp add: runConnection_def createConnection_def settle_def Let_def)

subsection \<open>The frame-update timeout\<close>

lemma convertToRGBA_error:
  "convertToRGBA b width height pf = Inl e \<Longrightarrow>
   e = UnsupportedPixelFormat (jsDivide (length b) (width * height))"
  by (auto simp: convertToRGBA_def Let_def split: if_splits)

lemma prepareFramebuffer_error:
  "prepareFramebuffer b width height pf = Inl e \<Longrightarrow>
     (\<exists>q. e = UnsupportedPixelFormat q) \<or> (\<exists>m n. e = FramebufferSizeMismatch m n)"
  by (cases "normalizeFramebuffer b width height pf")
     (auto simp: prepareFramebuffer_def normalizeFramebuffer_def validateFramebufferSize_def Let_def
       split: if_splits dest: convertToRGBA_error)

lemma captureScreenshotWithDimensions_error:
  "captureScreenshotWithDimensions enc width height rgba delay = Inl e \<Longrightarrow>
   \<exists>q. e = InvalidBytesPerPixel q"
  by (auto simp: captureScreenshotWithDimensions_def Let_def split: if_splits)

lemma snd_captureFramebuffer:
  "snd (captureFramebuffer client width height outcome) =
     (case outcome of Awaited (FrameArrived fbo) \<Rightarrow> fbo | _ \<Rightarrow> fb client)"
proof (cases outcome)
  case (Awaited waited)
  then show ?thesis
    by (cases waited) (simp_all add: captureFramebuffer_def tryFrameUpdate_def Let_def)
qed (simp_all add: captureFramebuffer_def tryFrameUpdate_def Let_def)

lemma screenshotOnSession_result:
  assumes "orZero (clientWidth client) = width" and "orZero (clientHeight client) = height"
    and "width \<noteq> 0" and "height \<noteq> 0"
  shows "snd (screenshotOnSession enc client outcome delay) =
     (case snd (captureFramebuffer client width height outcome) of
        None \<Rightarrow> Inl NoFramebufferAvailable
      | Some b \<Rightarrow> andThen (prepareFramebuffer b width height (pixelFormat client))
                    (\<lambda>rgba. captureScreenshotWithDimensions enc width height rgba delay))"
  using assms
  by (cases "captureFramebuffer client width height outcome")
     (simp add: screenshotOnSession_def Let_def)

lemma screenshotOnSession_no_dimensions:
  "orZero (clientWidth client) = 0 \<or> orZero (clientHeight client) = 0 \<Longrightarrow>
   snd (screenshotOnSession enc client outcome delay) =
     Inl (InvalidScreenDimensions (orZero (clientWidth client)) (orZero (clientHeight client)))"
  by (auto simp: screenshotOnSession_def Let_def)

text \<open>The errors that the body of the screenshot tool can end with.\<close>

lemma screenshotOnSession_errors:
  assumes "snd (screenshotOnSession enc client outcome delay) = Inl e"
  shows "(\<exists>w h. e = InvalidScreenDimensions w h) \<or> e = NoFramebufferAvailable
       \<or> (\<exists>q. e = UnsupportedPixelFormat q) \<or> (\<exists>m n. e = FramebufferSizeMismatch m n)
       \<or> (\<exists>q. e = InvalidBytesPerPixel q)"
proof (cases "orZero (clientWidth client) = 0 \<or> orZero (clientHeight client) = 0")
  case True
  with assms show ?thesis by (auto simp: screenshotOnSession_no_dimensions)
next
  case False
  then have r: "snd (screenshotOnSession enc client outcome delay) =
     (case snd (captureFramebuffer client (orZero (clientWidth client))
                  (orZero (clientHeight client)) outcome) of
        None \<Rightarrow> Inl NoFramebufferAvailable
      | Some b \<Rightarrow> andThen (prepareFramebuffer b (orZero (clientWidth client))
                      (orZero (clientHeight client)) (pixelFormat client))
                    (\<lambda>rgba. captureScreenshotWithDimensions enc (orZero (clientWidth client))
                      (orZero (clientHeight client)) rgba delay))"
    by (intro screenshotOnSession_result) simp_all
  show ?thesis
  proof (cases "snd (captureFramebuffer client (orZero (clientWidth client))
                  (orZero (clientHeight client)) outcome)")
    case None
    with assms r show ?thesis by simp
  next
    case (Some b)
    show ?thesis
    proof (cases "prepareFramebuffer b (orZero (clientWidth client))
                      (orZero (clientHeight client)) (pixelFormat client)")
      case (Inl e')
      with assms r Some have "e = e'" by simp
      with Inl show ?thesis using prepareFramebuffer_error by blast
    next
      case (Inr rgba)
      with assms r Some have "captureScreenshotWithDimensions enc (orZero (clientWidth client))
            (orZero (clientHeight client)) rgba delay = Inl e"
        by simp
      then show ?thesis using captureScreenshotWithDimensions_error by blast
    qed
  qed
qed

lemma handleScreenshot_connection_error:
  "snd (handleScreenshot enc (Inl e) outcome delayArg) =
     (if (case delayArg of None \<Rightarrow> 0 | Some d \<Rightarrow> d) > 300000 then Inl DelayTooLong else Inl e)"
  by (simp add: handleScreenshot_def Let_def)

lemma screenshot_two_pixels:
  "andThen (prepareFramebuffer [0x00, 0xF8, 0xE0, 0x07] 2 1 standardRGBA)
     (\<lambda>rgba. captureScreenshotWithDimensions
        \<lparr>jpeg = (\<lambda>quality progressive resize w h raw. raw), base64 = (\<lambda>b. showNat (length b))\<rparr>
        2 1 rgba 0)
   = Inr \<lparr>text_of = ''Screenshot captured (2x1)'', image_of = Some (''8'', ''image/jpeg'')\<rparr>"
  using prepareFramebuffer_two_pixels
  by (simp add: captureScreenshotWithDimensions_def jsDivide_def Let_def showNat_digit digitChar_def)

text \<open>
  C8, as stated: the frame-update timeout is the only error kind recovered locally. The
  handler of the capture step is \<open>catch (error)\<close>: when the call of
  \<open>requestFrameUpdate\<close> throws, the error of the \<open>try\<close> block is the library's and not the
  timeout, and it is recovered in the same way, with a screenshot of the session's last
  framebuffer as the result.
\<close>

theorem screenshot_request_error_recovered:
  "snd (tryFrameUpdate 2 1 (RequestThrows ''write after end'')) = Inl (LibraryError ''write after end'')
   \<and> LibraryError ''write after end'' \<noteq> FrameUpdateTimeout
   \<and> snd (screenshotOnSession
          \<lparr>jpeg = (\<lambda>quality progressive resize w h raw. raw), base64 = (\<lambda>b. showNat (length b))\<rparr>
          \<lparr>clientWidth = Some 2, clientHeight = Some 1, fb = Some [0x00, 0xF8, 0xE0, 0x07],
           pixelFormat = standardRGBA\<rparr> (RequestThrows ''write after end'') 0)
     = Inr \<lparr>text_of = ''Screenshot captured (2x1)'', image_of = Some (''8'', ''image/jpeg'')\<rparr>"
proof -
  have "snd (screenshotOnSession
          \<lparr>jpeg = (\<lambda>quality progressive resize w h raw. raw), base64 = (\<lambda>b. showNat (length b))\<rparr>
          \<lparr>clientWidth = Some 2, clientHeight = Some 1, fb = Some [0x00, 0xF8, 0xE0, 0x07],
           pixelFormat = standardRGBA\<rparr> (RequestThrows ''write after end'') 0)
     = andThen (prepareFramebuffer [0x00, 0xF8, 0xE0, 0x07] 2 1 standardRGBA)
         (\<lambda>rgba. captureScreenshotWithDimensions
            \<lparr>jpeg = (\<lambda>quality progressive resize w h raw. raw), base64 = (\<lambda>b. showNat (length b))\<rparr>
            2 1 rgba 0)"
    by (subst screenshotOnSession_result [of _ 2 1]) (simp_all add: snd_captureFramebuffer)
  with screenshot_two_pixels show ?thesis
    by (simp add: tryFrameUpdate_def)
qed

text \<open>
  C8, amended. When the 2000 ms timer fires before a frame-updated event, or a call into
  the RFB library inside the capture step throws, the screenshot does not fail: it goes
  on with the session's last framebuffer, exactly as if the event had delivered it; when
  the session has no framebuffer, it fails with the no-framebuffer error. The handler
  recovers every error of the capture step, of which the timeout is the one the program
  raises itself: neither the timeout nor a library error of that step is ever the error
  of the tool. The errors of the other steps reach the caller: of normalization and the
  size check, of the encoder's own check, of unknown screen dimensions, of the connection
  and of the delay.
\<close>

theorem screenshot_capture_fallback:
  assumes dims: "orZero (clientWidth client) = width" "orZero (clientHeight client) = height"
    "width \<noteq> 0" "height \<noteq> 0"
  shows
   "((\<forall>fbo. outcome \<noteq> Awaited (FrameArrived fbo)) \<longrightarrow>
       snd (screenshotOnSession enc client outcome delay) =
         (case fb client of
            None \<Rightarrow> Inl NoFramebufferAvailable
          | Some b \<Rightarrow> snd (screenshotOnSession enc client (Awaited (FrameArrived (Some b))) delay)))
  \<and> (fb client = Some b \<longrightarrow>
       snd (screenshotOnSession enc client (Awaited TimerFired) delay) =
         andThen (prepareFramebuffer b width height (pixelFormat client))
           (\<lambda>rgba. captureScreenshotWithDimensions enc width height rgba delay))
  \<and> (fb client = None \<longrightarrow>
       snd (screenshotOnSession enc client (Awaited TimerFired) delay) = Inl NoFramebufferAvailable)
  \<and> snd (tryFrameUpdate width height (Awaited TimerFired)) = Inl FrameUpdateTimeout
  \<and> snd (tryFrameUpdate width height (RequestThrows m)) = Inl (LibraryError m)
  \<and> snd (screenshotOnSession enc client outcome delay) \<noteq> Inl FrameUpdateTimeout
  \<and> snd (screenshotOnSession enc client outcome delay) \<noteq> Inl (LibraryError m)
  \<and> (prepareFramebuffer b width height (pixelFormat client) = Inl e \<longrightarrow>
       snd (screenshotOnSession enc client (Awaited (FrameArrived (Some b))) delay) = Inl e)
  \<and> (prepareFramebuffer b width height (pixelFormat client) = Inr rgba \<and>
      captureScreenshotWithDimensions enc width height rgba delay = Inl e \<longrightarrow>
       snd (screenshotOnSession enc client (Awaited (FrameArrived (Some b))) delay) = Inl e)
  \<and> snd (screenshotOnSession enc (client\<lparr>clientWidth := None\<rparr>) outcome delay) =
       Inl (InvalidScreenDimensions 0 height)
  \<and> snd (handleScreenshot enc (Inl e) outcome (Some delay)) =
       (if delay > 300000 then Inl DelayTooLong else Inl e)"
proof -
  note r = screenshotOnSession_result [OF dims]
  have 1: "(\<forall>fbo. outcome \<noteq> Awaited (FrameArrived fbo)) \<longrightarrow>
       snd (screenshotOnSession enc client outcome delay) =
         (case fb client of
            None \<Rightarrow> Inl NoFramebufferAvailable
          | Some b \<Rightarrow> snd (screenshotOnSession enc client (Awaited (FrameArrived (Some b))) delay))"
  proof
    assume a: "\<forall>fbo. outcome \<noteq> Awaited (FrameArrived fbo)"
    have "snd (captureFramebuffer client width height outcome) = fb client"
    proof (cases outcome)
      case (Awaited waited)
      with a show ?thesis by (cases waited) (simp_all add: snd_captureFramebuffer)
    qed (simp_all add: snd_captureFramebuffer)
    then show "snd (screenshotOnSession enc client outcome delay) =
         (case fb client of
            None \<Rightarrow> Inl NoFramebufferAvailable
          | Some b \<Rightarrow> snd (screenshotOnSession enc client (Awaited (FrameArrived (Some b))) delay))"
      by (cases "fb client") (simp_all add: r snd_captureFramebuffer)
  qed
  have 2: "fb client = Some b \<longrightarrow>
       snd (screenshotOnSession enc client (Awaited TimerFired) delay) =
         andThen (prepareFramebuffer b width height (pixelFormat client))
           (\<lambda>rgba. captureScreenshotWithDimensions enc width height rgba delay)"
    by (simp add: r snd_captureFramebuffer)
  have 3: "fb client = None \<longrightarrow>
       snd (screenshotOnSession enc client (Awaited TimerFired) delay) = Inl NoFramebufferAvailable"
    by (simp add: r snd_captureFramebuffer)
  have 4: "snd (tryFrameUpdate width height (Awaited TimerFired)) = Inl FrameUpdateTimeout"
    by (simp add: tryFrameUpdate_def)
  have 5: "snd (tryFrameUpdate width height (RequestThrows m)) = Inl (LibraryError m)"
    by (simp add: tryFrameUpdate_def)
  have 6: "snd (screenshotOnSession enc client outcome delay) \<noteq> Inl FrameUpdateTimeout"
    using screenshotOnSession_errors [of enc client outcome delay FrameUpdateTimeout] by auto
  have 7: "snd (screenshotOnSession enc client outcome delay) \<noteq> Inl (LibraryError m)"
    using screenshotOnSession_errors [of enc client outcome delay "LibraryError m"] by auto
  have 8: "prepareFramebuffer b width height (pixelFormat client) = Inl e \<longrightarrow>
       snd (screenshotOnSession enc client (Awaited (FrameArrived (Some b))) delay) = Inl e"
    by (simp add: r snd_captureFramebuffer)
  have 9: "prepareFramebuffer b width height (pixelFormat client) = Inr rgba \<and>
      captureScreenshotWithDimensions enc width height rgba delay = Inl e \<longrightarrow>
       snd (screenshotOnSession enc client (Awaited (FrameArrived (Some b))) delay) = Inl e"
    by (simp add: r snd_captureFramebuffer)
  have 10: "snd (screenshotOnSession enc (client\<lparr>clientWidth := None\<rparr>) outcome delay) =
       Inl (InvalidScreenDimensions 0 height)"
    using dims(2) by (simp add: screenshotOnSession_no_dimensions)
  have 11: "snd (handleScreenshot enc (Inl e) outcome (Some delay)) =
       (if delay > 300000 then Inl DelayTooLong else Inl e)"
    by (simp add: handleScreenshot_connection_error)
  from 1 2 3 4 5 6 7 8 9 10 11 show ?thesis by blast
qed

theorem screenshot_capture_fallback_witness:
  "snd (screenshotOnSession
          \<lparr>jpeg = (\<lambda>quality progressive resize w h raw. raw), base64 = (\<lambda>b. showNat (length b))\<rparr>
          \<lparr>clientWidth = Some 2, clientHeight = Some 1, fb = Some [0x00, 0xF8, 0xE0, 0x07],
           pixelFormat = standardRGBA\<rparr> (Awaited TimerFired) 0)
     = Inr \<lparr>text_of = ''Screenshot captured (2x1)'', image_of = Some (''8'', ''image/jpeg'')\<rparr>
   \<and> snd (screenshotOnSession
          \<lparr>jpeg = (\<lambda>quality progressive resize w h raw. raw), base64 = (\<lambda>b. showNat (length b))\<rparr>
          \<lparr>clientWidth = Some 2, clientHeight = Some 1, fb = None,
           pixelFormat = standardRGBA\<rparr> (ListenerThrows ''closed'') 0)
     = Inl NoFramebufferAvailable"
proof
  have dims:
    "orZero (clientWidth \<lparr>clientWidth = Some 2, clientHeight = Some 1,
        fb = Some [0x00, 0xF8, 0xE0, 0x07], pixelFormat = standardRGBA\<rparr>) = 2"
    "orZero (clientHeight \<lparr>clientWidth = Some 2, clientHeight = Some 1,
        fb = Some [0x00, 0xF8, 0xE0, 0x07], pixelFormat = standardRGBA\<rparr>) = 1"
    "(2::nat) \<noteq> 0" "(1::nat) \<noteq> 0"
    by simp_all
  note t = screenshot_capture_fallback
      [OF dims, where outcome = "Awaited TimerFired" and delay = 0
         and enc = "\<lparr>jpeg = (\<lambda>quality progressive resize w h raw. raw),
                       base64 = (\<lambda>b. showNat (length b))\<rparr>"
         and b = "[0x00, 0xF8, 0xE0, 0x07]" and m = "[]" and e = NoFramebufferAvailable
         and rgba = "[]"]
  from t [THEN conjunct2, THEN conjunct1] screenshot_two_pixels
  show "snd (screenshotOnSession
          \<lparr>jpeg = (\<lambda>quality progressive resize w h raw. raw), base64 = (\<lambda>b. showNat (length b))\<rparr>
          \<lparr>clientWidth = Some 2, clientHeight = Some 1, fb = Some [0x00, 0xF8, 0xE0, 0x07],
           pixelFormat = standardRGBA\<rparr> (Awaited TimerFired) 0)
     = Inr \<lparr>text_of = ''Screenshot captured (2x1)'', image_of = Some (''8'', ''image/jpeg'')\<rparr>"
    by simp
next
  have dims:
    "orZero (clientWidth \<lparr>clientWidth = Some 2, clientHeight = Some 1,
        fb = None, pixelFormat = standardRGBA\<rparr>) = 2"
    "orZero (clientHeight \<lparr>clientWidth = Some 2, clientHeight = Some 1,
        fb = None, pixelFormat = standardRGBA\<rparr>) = 1"
    "(2::nat) \<noteq> 0" "(1::nat) \<noteq> 0"
    by simp_all
  note t = screenshot_capture_fallback
      [OF dims, where outcome = "ListenerThrows ''closed''" and delay = 0
         and enc = "\<lparr>jpeg = (\<lambda>quality progressive resize w h raw. raw),
                       base64 = (\<lambda>b. showNat (length b))\<rparr>"
         and b = "[]" and m = "[]" and e = NoFramebufferAvailable and rgba = "[]"]
  from t [THEN conjunct1]
  show "snd (screenshotOnSession
          \<lparr>jpeg = (\<lambda>quality progressive resize w h raw. raw), base64 = (\<lambda>b. showNat (length b))\<rparr>
          \<lparr>clientWidth = Some 2, clientHeight = Some 1, fb = None,
           pixelFormat = standardRGBA\<rparr> (ListenerThrows ''closed'') 0)
     = Inl NoFramebufferAvailable"
    by simp
qed

end
